theory Spec2Isabelle
  imports Main
begin

section \<open>Python values used by hw_12.py\<close>

text \<open>
  A Python \<open>str\<close> is a sequence of code points. The model uses HOL's \<open>string\<close>, whose
  characters have 256 values, and reads each character as the code point of the same
  number: the model covers the texts whose code points are below 256, and \<open>length\<close>
  counts code points as Python's \<open>len\<close> does.
\<close>

datatype error =
    ValueError string
  | KeyError
  | IndexError
  | AttributeError
  | TypeError
  | UnboundLocalError
  | EOFError
  | UnpicklingError

text \<open>
  The errors the program can meet, all subclasses of \<open>Exception\<close>. Only \<open>ValueError\<close>
  carries its message, since \<open>add\<close> returns \<open>str(e)\<close> of one; the messages of the
  library's own \<open>ValueError\<close>s are never read by the program and are left empty.
\<close>

text \<open>\<open>str.startswith\<close>.\<close>

fun startswith :: "string \<Rightarrow> string \<Rightarrow> bool" where
  "startswith s [] = True"
| "startswith [] (p # ps) = False"
| "startswith (c # cs) (p # ps) = (c = p \<and> startswith cs ps)"

text \<open>
  \<open>str.isdigit\<close> on one code point below 256: the ten decimal digits, and the
  superscript digits U+00B2, U+00B3 and U+00B9, which Python counts as digits
  (they are digits that are not decimal characters).
\<close>

definition is_decimal :: "char \<Rightarrow> bool" where
  "is_decimal c = (48 \<le> (of_char c :: nat) \<and> (of_char c :: nat) \<le> 57)"

definition isdigit_char :: "char \<Rightarrow> bool" where
  "isdigit_char c =
     (is_decimal c \<or> (of_char c :: nat) = 178 \<or> (of_char c :: nat) = 179
        \<or> (of_char c :: nat) = 185)"

text \<open>\<open>str.isdigit\<close>: every character is a digit and there is at least one.\<close>

definition isdigit :: "string \<Rightarrow> bool" where
  "isdigit s = (s \<noteq> [] \<and> list_all isdigit_char s)"

text \<open>
  \<open>str.lower\<close> on a code point below 256: A-Z, and U+00C0-U+00DE except the
  multiplication sign U+00D7, move up by 32; every other code point is unchanged.
\<close>

definition lower_char :: "char \<Rightarrow> char" where
  "lower_char c =
     (let k = (of_char c :: nat)
      in if (65 \<le> k \<and> k \<le> 90) \<or> (192 \<le> k \<and> k \<le> 222 \<and> k \<noteq> 215)
         then char_of (k + 32) else c)"

definition lower :: "string \<Rightarrow> string" where
  "lower s = map lower_char s"

text \<open>
  The code points below 256 that \<open>str.split()\<close> treats as white space:
  U+0009-U+000D, U+001C-U+0020, U+0085 and U+00A0.
\<close>

definition isspace_char :: "char \<Rightarrow> bool" where
  "isspace_char c =
     (let k = (of_char c :: nat)
      in (9 \<le> k \<and> k \<le> 13) \<or> (28 \<le> k \<and> k \<le> 32) \<or> k = 133 \<or> k = 160)"

text \<open>
  \<open>str.split()\<close> with no argument: the maximal runs of characters that are not white
  space, in order. \<open>split_acc cur s\<close> carries the word being read, reversed.
\<close>

fun split_acc :: "string \<Rightarrow> string \<Rightarrow> string list" where
  "split_acc cur [] = (if cur = [] then [] else [rev cur])"
| "split_acc cur (c # cs) =
     (if isspace_char c
      then (if cur = [] then split_acc [] cs else rev cur # split_acc [] cs)
      else split_acc (c # cur) cs)"

definition split :: "string \<Rightarrow> string list" where
  "split s = split_acc [] s"

text \<open>\<open>q in s\<close> for two texts: \<open>q\<close> occurs in \<open>s\<close> as a contiguous run.\<close>

fun contains :: "string \<Rightarrow> string \<Rightarrow> bool" where
  "contains [] q = (q = [])"
| "contains (c # cs) q = (startswith (c # cs) q \<or> contains cs q)"

text \<open>\<open>sep.join(xs)\<close>.\<close>

fun join :: "string \<Rightarrow> string list \<Rightarrow> string" where
  "join sep [] = []"
| "join sep [x] = x"
| "join sep (x # y # ys) = x @ sep @ join sep (y # ys)"

text \<open>The value of a decimal digit, and of a run of decimal digits.\<close>

definition digit_value :: "char \<Rightarrow> nat" where
  "digit_value c = (of_char c :: nat) - 48"

definition digits_value :: "string \<Rightarrow> nat" where
  "digits_value s = foldl (\<lambda>a c. 10 * a + digit_value c) 0 s"

text \<open>\<open>str(k)\<close> for a natural number and for an integer.\<close>

fun str_digits :: "nat \<Rightarrow> nat \<Rightarrow> string" where
  "str_digits 0 k = []"
| "str_digits (Suc fuel) k =
     (if k < 10 then [char_of (48 + k)]
      else str_digits fuel (k div 10) @ [char_of (48 + k mod 10)])"

definition str_nat :: "nat \<Rightarrow> string" where
  "str_nat k = str_digits (Suc k) k"

definition str_int :: "int \<Rightarrow> string" where
  "str_int i = (if i < 0 then CHR ''-'' # str_nat (nat (- i)) else str_nat (nat i))"

section \<open>Field, Name, Phone\<close>

text \<open>
  A \<open>Phone\<close> object: \<open>Field\<close> defines no \<open>__eq__\<close>, so Python compares two
  \<open>Phone\<close> objects by identity. The model keeps the identity of the object beside its
  value. The value is \<open>None\<close> or a text (\<open>Phone(None)\<close> is accepted by the setter).
\<close>

record phone =
  ident :: nat
  pvalue :: "string option"

text \<open>\<open>Phone.is_valid_phone\<close> (lines 33-43). \<open>if phone:\<close> is false for None and for the empty text.\<close>

definition is_valid_phone :: "string option \<Rightarrow> bool" where
  "is_valid_phone ph =
     (case ph of
        None \<Rightarrow> True
      | Some s \<Rightarrow>
          if s \<noteq> [] then
            (if \<not> startswith s ''+380'' then False
             else if length s \<noteq> 13 then False
             else if \<not> isdigit (drop 4 s) then False
             else True)
          else True)"

definition str_opt :: "string option \<Rightarrow> string" where
  \<comment> \<open>\<open>str(v)\<close> for a value that is a text or \<open>None\<close>; \<open>str(None)\<close> is the text None.\<close>
  "str_opt v = (case v of None \<Rightarrow> ''None'' | Some s \<Rightarrow> s)"

definition str_phone :: "phone \<Rightarrow> string" where
  \<comment> \<open>\<open>Field.__str__\<close>: \<open>str(self.value)\<close>.\<close>
  "str_phone p = str_opt (pvalue p)"

text \<open>
  \<open>Phone(value)\<close> (lines 19-31): the setter raises \<open>ValueError\<close> on a value that
  \<open>is_valid_phone\<close> rejects. The new object gets the identity \<open>i\<close>.
\<close>

definition Phone :: "nat \<Rightarrow> string option \<Rightarrow> error + phone" where
  "Phone i v =
     (if \<not> is_valid_phone v then Inl (ValueError ''Invalid phone number format'')
      else Inr \<lparr>ident = i, pvalue = v\<rparr>)"

section \<open>Calendar dates and \<open>datetime.strptime\<close>\<close>

record date =
  year :: nat
  month :: nat
  day :: nat

definition is_leap :: "nat \<Rightarrow> bool" where
  "is_leap y = (y mod 4 = 0 \<and> (y mod 100 \<noteq> 0 \<or> y mod 400 = 0))"

definition days_in_month :: "nat \<Rightarrow> nat \<Rightarrow> nat" where
  "days_in_month y m =
     (if m = 2 then (if is_leap y then 29 else 28)
      else if m = 4 \<or> m = 6 \<or> m = 9 \<or> m = 11 then 30 else 31)"

text \<open>
  The constructors \<open>date(y, m, d)\<close> and \<open>datetime(y, m, d)\<close>: \<open>ValueError\<close> unless
  the year is in 1..9999, the month in 1..12 and the day in 1..the month's length.
\<close>

definition datetime_date :: "nat \<Rightarrow> nat \<Rightarrow> nat \<Rightarrow> error + date" where
  "datetime_date y m d =
     (if y < 1 \<or> 9999 < y then Inl (ValueError [])
      else if m < 1 \<or> 12 < m then Inl (ValueError [])
      else if d < 1 \<or> days_in_month y m < d then Inl (ValueError [])
      else Inr \<lparr>year = y, month = m, day = d\<rparr>)"

text \<open>\<open>date.toordinal\<close>: the number of the day, 1 January of year 1 being day 1.\<close>

definition days_before_year :: "nat \<Rightarrow> int" where
  "days_before_year y =
     (let k = int y - 1 in k * 365 + k div 4 - k div 100 + k div 400)"

definition days_before_month :: "nat \<Rightarrow> nat \<Rightarrow> int" where
  "days_before_month y m = int (sum_list (map (days_in_month y) [1..<m]))"

definition toordinal :: "date \<Rightarrow> int" where
  "toordinal d = days_before_year (year d) + days_before_month (year d) (month d) + int (day d)"

definition date_less :: "date \<Rightarrow> date \<Rightarrow> bool" where
  "date_less a b =
     (year a < year b \<or> (year a = year b \<and>
        (month a < month b \<or> (month a = month b \<and> day a < day b))))"

text \<open>
  \<open>datetime.strptime(text, "%d.%m.%Y")\<close>. The library turns the format into the regular
  expression
  \<^verbatim>\<open>(?P<d>3[0-1]|[1-2]\d|0[1-9]|[1-9]| [1-9])\.(?P<m>1[0-2]|0[1-9]|[1-9])\.(?P<Y>\d\d\d\d)\<close>
  and matches it at the start of the text, trying the alternatives of a group in the order
  written and going back to the next one when the rest fails. It raises \<open>ValueError\<close>
  when nothing matches, when text is left over after the match, and when the three
  numbers are not a date. Below code point 256, \<open>\d\<close> is a decimal digit. Each function
  below gives the ways its piece matches a prefix, in the order the matcher tries them,
  as pairs of the matched text and the text left.
\<close>

definition is_nonzero_digit :: "char \<Rightarrow> bool" where
  "is_nonzero_digit c = (49 \<le> (of_char c :: nat) \<and> (of_char c :: nat) \<le> 57)"

definition directive_d :: "string \<Rightarrow> (string \<times> string) list" where
  "directive_d s =
     (case s of
        [] \<Rightarrow> []
      | [a] \<Rightarrow> (if is_nonzero_digit a then [([a], [])] else [])
      | a # b # rest \<Rightarrow>
          (if a = CHR ''3'' \<and> (b = CHR ''0'' \<or> b = CHR ''1'') then [([a, b], rest)] else []) @
          (if (a = CHR ''1'' \<or> a = CHR ''2'') \<and> is_decimal b then [([a, b], rest)] else []) @
          (if a = CHR ''0'' \<and> is_nonzero_digit b then [([a, b], rest)] else []) @
          (if is_nonzero_digit a then [([a], b # rest)] else []) @
          (if a = CHR '' '' \<and> is_nonzero_digit b then [([a, b], rest)] else []))"

definition directive_m :: "string \<Rightarrow> (string \<times> string) list" where
  "directive_m s =
     (case s of
        [] \<Rightarrow> []
      | [a] \<Rightarrow> (if is_nonzero_digit a then [([a], [])] else [])
      | a # b # rest \<Rightarrow>
          (if a = CHR ''1'' \<and> (b = CHR ''0'' \<or> b = CHR ''1'' \<or> b = CHR ''2'')
           then [([a, b], rest)] else []) @
          (if a = CHR ''0'' \<and> is_nonzero_digit b then [([a, b], rest)] else []) @
          (if is_nonzero_digit a then [([a], b # rest)] else []))"

definition directive_Y :: "string \<Rightarrow> (string \<times> string) list" where
  "directive_Y s =
     (case s of
        a # b # c # d # rest \<Rightarrow>
          (if is_decimal a \<and> is_decimal b \<and> is_decimal c \<and> is_decimal d
           then [([a, b, c, d], rest)] else [])
      | _ \<Rightarrow> [])"

definition literal_dot :: "string \<Rightarrow> string list" where
  "literal_dot s = (case s of [] \<Rightarrow> [] | c # rest \<Rightarrow> (if c = CHR ''.'' then [rest] else []))"

text \<open>
  The match of the whole expression, piece after piece: the text after the month and the
  second dot must start with the year; the text after the day and the first dot must
  start with a month; the text must start with a day. The first element of the result,
  if any, is the match the library finds.
\<close>

definition after_month :: "string \<Rightarrow> string \<Rightarrow> string \<Rightarrow> (string \<times> string \<times> string \<times> string) list" where
  "after_month d m r3 =
     concat (map (\<lambda>r4. map (\<lambda>(y, rest). (d, m, y, rest)) (directive_Y r4)) (literal_dot r3))"

definition after_day :: "string \<Rightarrow> string \<Rightarrow> (string \<times> string \<times> string \<times> string) list" where
  "after_day d r1 =
     concat (map (\<lambda>r2. concat (map (\<lambda>(m, r3). after_month d m r3) (directive_m r2)))
       (literal_dot r1))"

definition regex_match :: "string \<Rightarrow> (string \<times> string \<times> string \<times> string) list" where
  "regex_match s = concat (map (\<lambda>(d, r1). after_day d r1) (directive_d s))"

definition int_group :: "string \<Rightarrow> nat" where
  \<comment> \<open>\<open>int(found_dict['d'])\<close>: \<open>int\<close> skips the leading blank of the last alternative.\<close>
  "int_group s = digits_value (dropWhile (\<lambda>c. c = CHR '' '') s)"

definition strptime :: "string \<Rightarrow> error + date" where
  "strptime s =
     (case regex_match s of
        [] \<Rightarrow> Inl (ValueError [])
      | (d, m, y, rest) # _ \<Rightarrow>
          if rest \<noteq> [] then Inl (ValueError [])
          else datetime_date (int_group y) (int_group m) (int_group d))"

section \<open>Birthday\<close>

text \<open>
  Line 2 is \<open>from datetime import datetime\<close>: the global name \<open>datetime\<close> is the class
  \<open>datetime.datetime\<close>. \<open>getattr_datetime a\<close> is the lookup of the attribute \<open>a\<close> on that
  class, for the attribute names the program uses: \<open>strptime\<close> and \<open>now\<close> are class
  methods, \<open>datetime\<close> is not an attribute of the class and the lookup raises
  \<open>AttributeError\<close>.
\<close>

definition getattr_datetime :: "string \<Rightarrow> error + unit" where
  "getattr_datetime a =
     (if a = ''strptime'' \<or> a = ''now'' then Inr () else Inl AttributeError)"

text \<open>
  \<open>Birthday.is_valid_date\<close> (lines 60-66) evaluates \<open>datetime.datetime.strptime\<close>: the
  attribute \<open>datetime\<close> of the class is looked up first, inside the \<open>try\<close>, whose only
  handler is for \<open>ValueError\<close>.
\<close>

definition is_valid_date :: "string \<Rightarrow> error + bool" where
  "is_valid_date b =
     (case getattr_datetime ''datetime'' of
        Inl (ValueError m) \<Rightarrow> Inr False
      | Inl e \<Rightarrow> Inl e
      | Inr u \<Rightarrow>
          (case strptime b of
             Inl (ValueError m) \<Rightarrow> Inr False
           | Inl e \<Rightarrow> Inl e
           | Inr d \<Rightarrow> Inr True))"

text \<open>\<open>Birthday(value)\<close> (lines 46-58); a \<open>Birthday\<close> object is represented by its text.\<close>

definition Birthday :: "string \<Rightarrow> error + string" where
  "Birthday v =
     (case is_valid_date v of
        Inl e \<Rightarrow> Inl e
      | Inr ok \<Rightarrow> if \<not> ok then Inl (ValueError ''Invalid date format'') else Inr v)"

section \<open>Record\<close>

record Record =
  name :: string
  phones :: "phone list"
  birthday :: "date option"

text \<open>
  \<open>phone in self.phones\<close>: membership in a list compares with \<open>==\<close>, which for
  \<open>Phone\<close> objects is identity.
\<close>

definition phone_in :: "phone \<Rightarrow> phone list \<Rightarrow> bool" where
  "phone_in p ps = list_ex (\<lambda>q. ident q = ident p) ps"

text \<open>\<open>Record.add_phone\<close> (lines 79-83): the status text and the record afterwards.\<close>

definition add_phone :: "phone \<Rightarrow> Record \<Rightarrow> string \<times> Record" where
  "add_phone p r =
     (if \<not> phone_in p (phones r)
      then (''Phone '' @ str_phone p @ '' added to contact '' @ name r,
            r\<lparr>phones := phones r @ [p]\<rparr>)
      else (str_phone p @ '' already added to '' @ name r, r))"

text \<open>\<open>Record.remove_phone\<close> (lines 85-86).\<close>

definition remove_phone :: "string \<Rightarrow> Record \<Rightarrow> Record" where
  "remove_phone ph r = r\<lparr>phones := filter (\<lambda>p. str_phone p \<noteq> ph) (phones r)\<rparr>"

text \<open>\<open>Record.change_phone\<close> (lines 88-92): the first phone with the text of \<open>old\<close> is replaced.\<close>

fun change_first :: "string \<Rightarrow> phone \<Rightarrow> phone list \<Rightarrow> phone list" where
  "change_first old new [] = []"
| "change_first old new (p # ps) =
     (if str_phone p = old then new # ps else p # change_first old new ps)"

definition change_phone :: "phone \<Rightarrow> phone \<Rightarrow> Record \<Rightarrow> Record" where
  "change_phone old_phone new_phone r =
     r\<lparr>phones := change_first (str_phone old_phone) new_phone (phones r)\<rparr>"

text \<open>
  \<open>Record.set_birthday\<close> (lines 94-99): the result is an error, or the returned text and
  the record afterwards. Only \<open>ValueError\<close> is handled.
\<close>

definition set_birthday :: "string \<Rightarrow> Record \<Rightarrow> error + (string \<times> Record)" where
  "set_birthday b r =
     (case strptime b of
        Inr d \<Rightarrow> Inr (''Birthday set for '' @ name r, r\<lparr>birthday := Some d\<rparr>)
      | Inl (ValueError m) \<Rightarrow>
          Inr (''Invalid birthday format. Please use dd.mm.yyyy format.'', r)
      | Inl e \<Rightarrow> Inl e)"

text \<open>
  \<open>Record.days_to_birthday\<close> (lines 101-112); \<open>today\<close> is \<open>datetime.now().date()\<close>.
\<close>

definition days_message :: "Record \<Rightarrow> date \<Rightarrow> date \<Rightarrow> string" where
  "days_message r next_birthday current_date =
     ''Days to next birthday for '' @ name r @ '': ''
       @ str_int (toordinal next_birthday - toordinal current_date)"

definition days_to_birthday :: "date \<Rightarrow> Record \<Rightarrow> error + string" where
  "days_to_birthday today r =
     (case birthday r of
        None \<Rightarrow> Inr ''Birthday not set''
      | Some b \<Rightarrow>
          (case datetime_date (year today) (month b) (day b) of
             Inl e \<Rightarrow> Inl e
           | Inr next_birthday \<Rightarrow>
               if date_less next_birthday today
               then (case datetime_date (year today + 1) (month b) (day b) of
                       Inl e \<Rightarrow> Inl e
                     | Inr next_birthday' \<Rightarrow> Inr (days_message r next_birthday' today))
               else Inr (days_message r next_birthday today)))"

text \<open>\<open>Record.__str__\<close> (lines 114-115).\<close>

definition str_Record :: "Record \<Rightarrow> string" where
  "str_Record r = ''Name: '' @ name r @ '', Phones: '' @ join '', '' (map str_phone (phones r))"

text \<open>
  \<open>Record(name, phone, birthday)\<close> (lines 70-77). A \<open>Birthday\<close> object given to the
  constructor is passed to \<open>set_birthday\<close>, where \<open>strptime\<close> raises \<open>TypeError\<close> on an
  argument that is not a text.
\<close>

definition Record_init :: "string \<Rightarrow> phone option \<Rightarrow> string option \<Rightarrow> error + Record" where
  "Record_init nm ph bd =
     (let r0 = \<lparr>name = nm, phones = [], birthday = None\<rparr>;
          r1 = (case ph of None \<Rightarrow> r0 | Some p \<Rightarrow> snd (add_phone p r0))
      in case bd of None \<Rightarrow> Inr r1 | Some b \<Rightarrow> Inl TypeError)"

section \<open>AddressBook\<close>

text \<open>
  \<open>AddressBook.data\<close> is a \<open>dict\<close> from names to records; a \<open>dict\<close> keeps its keys in
  insertion order, so it is a list of pairs with no key twice.
\<close>

type_synonym book = "(string \<times> Record) list"

definition dict_get :: "book \<Rightarrow> string \<Rightarrow> Record option" where
  "dict_get d k = map_of d k"

fun dict_set :: "book \<Rightarrow> string \<Rightarrow> Record \<Rightarrow> book" where
  \<comment> \<open>\<open>d[k] = v\<close>: an existing key keeps its place, a new key goes last.\<close>
  "dict_set [] k v = [(k, v)]"
| "dict_set ((k', v') # d) k v = (if k' = k then (k, v) # d else (k', v') # dict_set d k v)"

definition dict_del :: "book \<Rightarrow> string \<Rightarrow> error + book" where
  \<comment> \<open>\<open>del d[k]\<close>.\<close>
  "dict_del d k =
     (if k \<in> set (map fst d) then Inr (filter (\<lambda>e. fst e \<noteq> k) d) else Inl KeyError)"

definition dict_values :: "book \<Rightarrow> Record list" where
  "dict_values d = map snd d"

definition dict_keys :: "book \<Rightarrow> string list" where
  "dict_keys d = map fst d"

text \<open>\<open>AddressBook.add_record\<close> (lines 119-120).\<close>

definition add_record :: "Record \<Rightarrow> book \<Rightarrow> book" where
  "add_record r d = dict_set d (name r) r"

text \<open>\<open>AddressBook.remove_record\<close> (lines 122-124).\<close>

definition remove_record :: "string \<Rightarrow> book \<Rightarrow> error + (string \<times> book)" where
  "remove_record nm d =
     (case dict_del d nm of Inl e \<Rightarrow> Inl e | Inr d' \<Rightarrow> Inr (nm @ '' record deleted'', d'))"

text \<open>\<open>AddressBook.search_by_name\<close> (lines 126-131).\<close>

definition search_by_name :: "string \<Rightarrow> book \<Rightarrow> Record list" where
  "search_by_name nm d = filter (\<lambda>r. name r = nm) (dict_values d)"

text \<open>
  \<open>AddressBook.search\<close> (lines 178-190). \<open>search_phones q r ps\<close> is the inner loop: the
  record is appended once for every phone whose lower-cased text contains the query.
\<close>

fun search_phones :: "string \<Rightarrow> Record \<Rightarrow> phone list \<Rightarrow> Record list" where
  "search_phones q r [] = []"
| "search_phones q r (p # ps) =
     (if contains (lower (str_phone p)) q then r # search_phones q r ps
      else search_phones q r ps)"

fun search_records :: "string \<Rightarrow> Record list \<Rightarrow> Record list" where
  "search_records q [] = []"
| "search_records q (r # rs) =
     (if contains (lower (name r)) q then r # search_records q rs
      else search_phones q r (phones r) @ search_records q rs)"

definition search :: "string \<Rightarrow> book \<Rightarrow> Record list" where
  "search query d = search_records (lower query) (dict_values d)"

text \<open>
  \<open>xs[i:j]\<close> for integers \<open>i\<close> and \<open>j\<close>: a negative bound counts from the end, and both
  bounds are clamped to the list.
\<close>

definition slice_bound :: "nat \<Rightarrow> int \<Rightarrow> nat" where
  "slice_bound len k = (if k < 0 then nat (max 0 (int len + k)) else min (nat k) len)"

definition py_slice :: "'a list \<Rightarrow> int \<Rightarrow> int \<Rightarrow> 'a list" where
  "py_slice xs i j =
     (let a = slice_bound (length xs) i; b = slice_bound (length xs) j
      in take (b - a) (drop a xs))"

text \<open>
  \<open>AddressBook.iterator\<close> (lines 141-152) is a generator function: calling it runs
  nothing, and each \<open>next\<close> runs the body up to the next \<open>yield\<close>. A generator object is
  modelled by its local variables and the place where it is suspended. A local variable
  that has not been assigned yet is \<open>None\<close> in the model, and reading it raises
  \<open>UnboundLocalError\<close>. The \<open>while\<close> loop of line 150 stands after the
  \<open>if\<close>/\<open>else\<close>, at the indentation of the \<open>if\<close>, so it is reached from both branches.
\<close>

datatype place = Start | After_yield_all | After_yield_page | Finished

record generator =
  page_size :: "int option"
  records :: "Record list"
  total_records :: "nat option"
  current_index :: "int option"
  suspended :: place

datatype event = Yield "Record list" | StopIteration | Raise error

definition iterator :: "int option \<Rightarrow> generator" where
  "iterator n =
     \<lparr>page_size = n, records = [], total_records = None, current_index = None,
      suspended = Start\<rparr>"

text \<open>
  The test of the \<open>while\<close> loop and, when it holds, the \<open>yield\<close> of line 151.
  \<open>current_index\<close> is read first.
\<close>

definition while_test :: "generator \<Rightarrow> event \<times> generator" where
  "while_test g =
     (case current_index g of
        None \<Rightarrow> (Raise UnboundLocalError, g\<lparr>suspended := Finished\<rparr>)
      | Some i \<Rightarrow>
          (case total_records g of
             None \<Rightarrow> (Raise UnboundLocalError, g\<lparr>suspended := Finished\<rparr>)
           | Some t \<Rightarrow>
               if i < int t then
                 (case page_size g of
                    None \<Rightarrow> (Raise TypeError, g\<lparr>suspended := Finished\<rparr>)
                  | Some n \<Rightarrow>
                      (Yield (py_slice (records g) i (i + n)),
                       g\<lparr>suspended := After_yield_page\<rparr>))
               else (StopIteration, g\<lparr>suspended := Finished\<rparr>)))"

text \<open>
  \<open>next(g)\<close>. The body reads \<open>self.data\<close> when it starts, at the first \<open>next\<close>:
  \<open>d\<close> is the mapping at that moment.
\<close>

definition next_chunk :: "book \<Rightarrow> generator \<Rightarrow> event \<times> generator" where
  "next_chunk d g =
     (case suspended g of
        Start \<Rightarrow>
          (let g1 = g\<lparr>records := dict_values d\<rparr>
           in case page_size g1 of
                None \<Rightarrow> (Yield (records g1), g1\<lparr>suspended := After_yield_all\<rparr>)
              | Some n \<Rightarrow>
                  while_test (g1\<lparr>total_records := Some (length (records g1)),
                                 current_index := Some 0\<rparr>))
      | After_yield_all \<Rightarrow> while_test g
      | After_yield_page \<Rightarrow>
          (case (current_index g, page_size g) of
             (Some i, Some n) \<Rightarrow> while_test (g\<lparr>current_index := Some (i + n)\<rparr>)
           | _ \<Rightarrow> (Raise UnboundLocalError, g\<lparr>suspended := Finished\<rparr>))
      | Finished \<Rightarrow> (StopIteration, g))"

text \<open>
  The chunks a \<open>for\<close> loop over the generator receives in at most \<open>fuel\<close> steps, and how
  the loop ends: \<open>None\<close> when the generator is exhausted, the error when it raises.
  With a page size that is not positive the generator never ends, so the number of steps
  is bounded.
\<close>

fun drain :: "nat \<Rightarrow> book \<Rightarrow> generator \<Rightarrow> Record list list \<times> error option" where
  "drain 0 d g = ([], None)"
| "drain (Suc fuel) d g =
     (case next_chunk d g of
        (Yield chunk, g') \<Rightarrow> (let (cs, e) = drain fuel d g' in (chunk # cs, e))
      | (StopIteration, g') \<Rightarrow> ([], None)
      | (Raise e, g') \<Rightarrow> ([], Some e))"

section \<open>Files\<close>

text \<open>
  A file holds what \<open>pickle.dump\<close> wrote or the rows a \<open>csv.writer\<close> wrote.
  \<open>pickle.dump\<close> and \<open>pickle.load\<close> belong to the library; their format is not
  modelled, and a pickled file is represented by the mapping that \<open>pickle.load\<close>
  rebuilds from it.
\<close>

datatype file_content = Pickled book | Csv "string list list"

type_synonym files = "string \<Rightarrow> file_content option"

text \<open>
  \<open>AddressBook.load\<close> (lines 161-166): the new \<open>self.data\<close>, or the error of
  \<open>pickle.load\<close> on a file that is not a pickle. The rows of a csv file are taken to
  be no pickle; the few texts that are one by accident (a file whose only field is
  \<^verbatim>\<open>}.\<close> reads as the empty mapping) are outside the model. The program loads
  \<open>ab.bin\<close> only, and writes csv rows to \<open>ab.csv\<close> only.
\<close>

definition load :: "string \<Rightarrow> files \<Rightarrow> error + book" where
  "load path fs =
     (case fs path of
        None \<Rightarrow> Inr []
      | Some (Pickled d) \<Rightarrow> Inr d
      | Some (Csv rows) \<Rightarrow> Inl UnpicklingError)"

text \<open>\<open>AddressBook.save\<close> (lines 168-170).\<close>

definition save :: "string \<Rightarrow> book \<Rightarrow> files \<Rightarrow> files" where
  "save path d fs = fs(path \<mapsto> Pickled d)"

text \<open>
  \<open>AddressBook.save_csv\<close> (lines 172-175): \<open>writer.writerow(self.data)\<close> writes one row
  whose fields are the items that iterating \<open>self.data\<close> gives, and iterating a \<open>dict\<close>
  gives its keys.
\<close>

definition save_csv :: "string \<Rightarrow> book \<Rightarrow> files \<Rightarrow> files" where
  "save_csv path d fs = fs(path \<mapsto> Csv [dict_keys d])"

section \<open>The command layer\<close>

text \<open>
  \<open>int(text)\<close>. White space around the number is skipped: U+0009-U+000D, the blank,
  U+0085 and U+00A0, and not U+001C-U+001F, which \<open>str.split\<close> does treat as white
  space. A sign may come first, and an underscore may stand between two digits. A number
  of more than 4300 digits is refused with \<open>ValueError\<close> (the limit
  \<open>sys.get_int_max_str_digits()\<close> of the interpreter, at its default).
\<close>

definition int_space_char :: "char \<Rightarrow> bool" where
  "int_space_char c =
     (let k = (of_char c :: nat)
      in (9 \<le> k \<and> k \<le> 13) \<or> k = 32 \<or> k = 133 \<or> k = 160)"

definition skip_space :: "string \<Rightarrow> string" where
  "skip_space s = rev (dropWhile int_space_char (rev (dropWhile int_space_char s)))"

fun int_body_ok :: "string \<Rightarrow> bool" where
  "int_body_ok [] = False"
| "int_body_ok [c] = is_decimal c"
| "int_body_ok (c # d # cs) =
     (is_decimal c \<and> (if d = CHR ''_'' then int_body_ok cs else int_body_ok (d # cs)))"

definition int_max_str_digits :: nat where
  "int_max_str_digits = 4300"

definition py_int :: "string \<Rightarrow> error + int" where
  "py_int s =
     (let t = skip_space s;
          negative = (case t of [] \<Rightarrow> False | c # cs \<Rightarrow> c = CHR ''-'');
          body = (case t of [] \<Rightarrow> []
                  | c # cs \<Rightarrow> if c = CHR ''-'' \<or> c = CHR ''+'' then cs else t)
      in if int_body_ok body \<and> length (filter is_decimal body) \<le> int_max_str_digits
         then (let v = int (digits_value (filter is_decimal body))
               in Inr (if negative then - v else v))
         else Inl (ValueError []))"

text \<open>
  What the program can see and change: the global \<open>ab\<close>, the lines waiting on standard
  input, what was written to standard output, the files, the identity the next new
  object gets, and today's date.
\<close>

datatype written = Printed string | Prompt string

record world =
  ab :: book
  stdin :: "string list"
  stdout :: "written list"
  disk :: files
  fresh :: nat
  today :: date

definition print :: "string \<Rightarrow> world \<Rightarrow> world" where
  "print s w = w\<lparr>stdout := stdout w @ [Printed s]\<rparr>"

text \<open>\<open>input(prompt)\<close>: \<open>EOFError\<close> when no line is left.\<close>

definition input :: "string \<Rightarrow> world \<Rightarrow> (error + string) \<times> world" where
  "input prompt w =
     (let w1 = w\<lparr>stdout := stdout w @ [Prompt prompt]\<rparr>
      in case stdin w1 of
           [] \<Rightarrow> (Inl EOFError, w1)
         | l # ls \<Rightarrow> (Inr l, w1\<lparr>stdin := ls\<rparr>))"

text \<open>\<open>help\<close> (lines 192-205).\<close>

definition help_text :: string where
  "help_text =
     join [CHR 0x0A]
       [''Available commands:'',
        ''- hello'',
        ''- add [name] [phone in format +380xxxxxxx]'',
        ''- change [name] [phone]'',
        ''- find [name]'',
        ''- show_all'',
        ''- show'',
        ''- birthday [name] [date in format dd.mm.yyyy]'',
        ''- days_to_bd [name]'',
        ''- help '',
        ''- del [name] '',
        ''- search [string] (>3 symbols) '',
        ''- bye, close, exit'']"

text \<open>
  \<open>input_error\<close> (lines 208-221): the text the wrapper returns for the error it caught.
  Every error of the model is an \<open>Exception\<close>.
\<close>

definition input_error :: "error \<Rightarrow> string" where
  "input_error e =
     (case e of
        KeyError \<Rightarrow> ''contact not found''
      | ValueError m \<Rightarrow> ''invalid format, type help''
      | IndexError \<Rightarrow> ''Invalid input''
      | _ \<Rightarrow> help_text)"

definition wrapper ::
  "(world \<Rightarrow> (error + string) \<times> world) \<Rightarrow> world \<Rightarrow> (error + string) \<times> world" where
  "wrapper func w =
     (case func w of
        (Inl e, w') \<Rightarrow> (Inr (input_error e), w')
      | (Inr s, w') \<Rightarrow> (Inr s, w'))"

text \<open>
  Reading an attribute of a \<open>Record\<close> object that holds a list of phones: \<open>__init__\<close>
  sets \<open>phones\<close> and no other such attribute.
\<close>

definition getattr_Record :: "Record \<Rightarrow> string \<Rightarrow> error + phone list" where
  "getattr_Record r a = (if a = ''phones'' then Inr (phones r) else Inl AttributeError)"

text \<open>
  \<open>add\<close> (lines 226-242), not decorated. \<open>if record:\<close> holds for every \<open>Record\<close>
  object, since the class defines neither \<open>__bool__\<close> nor \<open>__len__\<close>. The \<open>except\<close>
  clause handles \<open>ValueError\<close> only and returns its message.
\<close>

definition add_body ::
  "string \<Rightarrow> string option \<Rightarrow> string option \<Rightarrow> world \<Rightarrow> (error + string) \<times> world" where
  "add_body nm ph bd w =
     (case dict_get (ab w) nm of
        Some record \<Rightarrow>
          (case getattr_Record record ''phone'' of
             Inl e \<Rightarrow> (Inl e, w)
           | Inr ps \<Rightarrow>
               if ph \<in> set (map (\<lambda>p. Some (str_phone p)) ps)
               then (Inr (str_opt ph @ '' already added to '' @ nm), w)
               else (case Phone (fresh w) ph of
                       Inl e \<Rightarrow> (Inl e, w)
                     | Inr new_phone \<Rightarrow>
                         (let (msg, record') = add_phone new_phone record
                          in (Inr msg, w\<lparr>ab := dict_set (ab w) nm record',
                                          fresh := Suc (fresh w)\<rparr>))))
      | None \<Rightarrow>
          (case Phone (fresh w) ph of
             Inl e \<Rightarrow> (Inl e, w)
           | Inr phone_field \<Rightarrow>
               (let w1 = w\<lparr>fresh := Suc (fresh w)\<rparr>
                in case (case bd of
                           None \<Rightarrow> Inr None
                         | Some b \<Rightarrow> if b = [] then Inr None
                                     else (case Birthday b of
                                             Inl e \<Rightarrow> Inl e | Inr bf \<Rightarrow> Inr (Some bf))) of
                     Inl e \<Rightarrow> (Inl e, w1)
                   | Inr birthday_field \<Rightarrow>
                       (case Record_init nm (Some phone_field) birthday_field of
                          Inl e \<Rightarrow> (Inl e, w1)
                        | Inr record \<Rightarrow>
                            (Inr (''Contact '' @ nm @ '' add success''),
                             w1\<lparr>ab := add_record record (ab w1)\<rparr>)))))"

definition add :: "string \<Rightarrow> string option \<Rightarrow> string option \<Rightarrow> world \<Rightarrow> (error + string) \<times> world" where
  "add nm ph bd w =
     (case add_body nm ph bd w of
        (Inl (ValueError m), w') \<Rightarrow> (Inr m, w')
      | other \<Rightarrow> other)"

text \<open>
  \<open>command(*data)\<close> for \<open>add\<close>: one to three arguments, \<open>TypeError\<close> otherwise.
\<close>

definition add_cmd :: "string list \<Rightarrow> world \<Rightarrow> (error + string) \<times> world" where
  "add_cmd args w =
     (case args of
        [nm] \<Rightarrow> add nm None None w
      | [nm, ph] \<Rightarrow> add nm (Some ph) None w
      | [nm, ph, bd] \<Rightarrow> add nm (Some ph) (Some bd) w
      | _ \<Rightarrow> (Inl TypeError, w))"

text \<open>\<open>find\<close> (lines 245-251).\<close>

definition find_cmd :: "string list \<Rightarrow> world \<Rightarrow> (error + string) \<times> world" where
  "find_cmd args w =
     (case args of
        [nm] \<Rightarrow>
          (case search_by_name nm (ab w) of
             [] \<Rightarrow> (Inl KeyError, w)
           | r # rs \<Rightarrow> (Inr (str_Record r), w))
      | _ \<Rightarrow> (Inl TypeError, w))"

text \<open>
  \<open>AddressBook.change_phone_by_name\<close> (lines 133-136), over the entries of the mapping:
  for each record found, \<open>result.phones[0]\<close> is read (\<open>IndexError\<close> without a phone),
  then \<open>Phone(new_phone)\<close> is built, then the phone is changed. An error leaves the
  records changed so far as they are. The result is the error if any, the mapping and the
  next fresh identity.
\<close>

fun change_phone_by_name :: "string \<Rightarrow> string \<Rightarrow> nat \<Rightarrow> book \<Rightarrow> error option \<times> book \<times> nat" where
  "change_phone_by_name nm new_phone i [] = (None, [], i)"
| "change_phone_by_name nm new_phone i ((k, r) # d) =
     (if name r = nm then
        (case phones r of
           [] \<Rightarrow> (Some IndexError, (k, r) # d, i)
         | p0 # ps \<Rightarrow>
             (case Phone i (Some new_phone) of
                Inl e \<Rightarrow> (Some e, (k, r) # d, i)
              | Inr p \<Rightarrow>
                  (let (e, d', i') = change_phone_by_name nm new_phone (Suc i) d
                   in (e, (k, change_phone p0 p r) # d', i'))))
      else (let (e, d', i') = change_phone_by_name nm new_phone i d
            in (e, (k, r) # d', i')))"

text \<open>\<open>change\<close> (lines 254-260).\<close>

definition change_cmd :: "string list \<Rightarrow> world \<Rightarrow> (error + string) \<times> world" where
  "change_cmd args w =
     (case args of
        [nm, new_phone] \<Rightarrow>
          (case dict_get (ab w) nm of
             Some rec \<Rightarrow>
               (let (e, d', i') = change_phone_by_name nm new_phone (fresh w) (ab w);
                    w' = w\<lparr>ab := d', fresh := i'\<rparr>
                in case e of
                     Some err \<Rightarrow> (Inl err, w')
                   | None \<Rightarrow> (Inr (''phone number for '' @ nm @ '' updated''), w'))
           | None \<Rightarrow> (Inr (''no '' @ nm @ '' in contacts''), w))
      | _ \<Rightarrow> (Inl TypeError, w))"

text \<open>
  \<open>AddressBook.show_all\<close> (lines 154-159) as the program calls it, with no page size:
  the first chunk is printed in one \<open>print\<close> and the loop is left.
\<close>

definition show_all :: "world \<Rightarrow> (error + unit) \<times> world" where
  "show_all w =
     (case next_chunk (ab w) (iterator None) of
        (Yield chunk, g) \<Rightarrow> (Inr (), print (join [CHR 0x0A] (map str_Record chunk)) w)
      | (StopIteration, g) \<Rightarrow> (Inr (), w)
      | (Raise e, g) \<Rightarrow> (Inl e, w))"

text \<open>
  The loop of the handler \<open>show_all\<close> (lines 267-273) over the lines waiting on standard
  input: each chunk's records are printed, then a line is read. The result is the error
  if any, what was written, and the lines left.
\<close>

definition page_prompt :: string where
  "page_prompt = ''Press Enter to continue or '' @ [CHR 0x27] @ ''q'' @ [CHR 0x27] @ '' to quit: ''"

fun page_loop ::
  "book \<Rightarrow> generator \<Rightarrow> string list \<Rightarrow> error option \<times> written list \<times> string list" where
  "page_loop d g [] =
     (case next_chunk d g of
        (Yield chunk, g') \<Rightarrow>
          (Some EOFError, map (\<lambda>r. Printed (str_Record r)) chunk @ [Prompt page_prompt], [])
      | (StopIteration, g') \<Rightarrow> (None, [], [])
      | (Raise e, g') \<Rightarrow> (Some e, [], []))"
| "page_loop d g (l # ls) =
     (case next_chunk d g of
        (Yield chunk, g') \<Rightarrow>
          (let out = map (\<lambda>r. Printed (str_Record r)) chunk @ [Prompt page_prompt]
           in if lower l = ''q'' then (None, out, ls)
              else (let (e, out', rest) = page_loop d g' ls in (e, out @ out', rest)))
      | (StopIteration, g') \<Rightarrow> (None, [], l # ls)
      | (Raise e, g') \<Rightarrow> (Some e, [], l # ls))"

text \<open>\<open>show_all\<close> (lines 262-276), the handler.\<close>

definition show_all_cmd :: "string list \<Rightarrow> world \<Rightarrow> (error + string) \<times> world" where
  "show_all_cmd args w =
     (case args of
        [] \<Rightarrow> (case show_all w of
                 (Inl e, w') \<Rightarrow> (Inl e, w')
               | (Inr u, w') \<Rightarrow> (Inr [], w'))
      | a # as \<Rightarrow>
          (case py_int a of
             Inl e \<Rightarrow> (Inl e, w)
           | Inr n \<Rightarrow>
               (let (e, out, rest) = page_loop (ab w) (iterator (Some n)) (stdin w);
                    w' = w\<lparr>stdout := stdout w @ out, stdin := rest\<rparr>
                in case e of Some err \<Rightarrow> (Inl err, w') | None \<Rightarrow> (Inr [], w'))))"

text \<open>\<open>set_birthday\<close> (lines 278-283), the handler.\<close>

definition set_birthday_cmd :: "string list \<Rightarrow> world \<Rightarrow> (error + string) \<times> world" where
  "set_birthday_cmd args w =
     (case args of
        [nm, bd] \<Rightarrow>
          (case dict_get (ab w) nm of
             Some rec \<Rightarrow>
               (case set_birthday bd rec of
                  Inl e \<Rightarrow> (Inl e, w)
                | Inr (msg, rec') \<Rightarrow> (Inr msg, w\<lparr>ab := dict_set (ab w) nm rec'\<rparr>))
           | None \<Rightarrow> (Inr (''No '' @ nm @ '' in contacts''), w))
      | _ \<Rightarrow> (Inl TypeError, w))"

text \<open>\<open>days_to_birthday\<close> (lines 286-291), the handler.\<close>

definition days_to_birthday_cmd :: "string list \<Rightarrow> world \<Rightarrow> (error + string) \<times> world" where
  "days_to_birthday_cmd args w =
     (case args of
        [nm] \<Rightarrow>
          (case dict_get (ab w) nm of
             Some rec \<Rightarrow> (days_to_birthday (today w) rec, w)
           | None \<Rightarrow> (Inr (''No '' @ nm @ '' in contacts''), w))
      | _ \<Rightarrow> (Inl TypeError, w))"

text \<open>\<open>no_command\<close> (lines 294-297), \<open>hello\<close> (300-302), \<open>close\<close> (305-307).\<close>

definition no_command :: "string list \<Rightarrow> world \<Rightarrow> (error + string) \<times> world" where
  "no_command args w =
     (Inr ('' - not valid command entered'' @ [CHR 0x0A] @ '' - type ''
             @ [CHR 0x27] @ ''help'' @ [CHR 0x27] @ '' for commands''), w)"

definition hello :: "string list \<Rightarrow> world \<Rightarrow> (error + string) \<times> world" where
  "hello args w = (case args of [] \<Rightarrow> (Inr ''How can I help you?'', w) | _ \<Rightarrow> (Inl TypeError, w))"

definition close :: "string list \<Rightarrow> world \<Rightarrow> (error + string) \<times> world" where
  "close args w = (case args of [] \<Rightarrow> (Inr ''Good bye!'', w) | _ \<Rightarrow> (Inl TypeError, w))"

text \<open>\<open>help\<close> called with the arguments of the command line; it takes none.\<close>

definition help_cmd :: "string list \<Rightarrow> world \<Rightarrow> (error + string) \<times> world" where
  "help_cmd args w = (case args of [] \<Rightarrow> (Inr help_text, w) | _ \<Rightarrow> (Inl TypeError, w))"

text \<open>\<open>remove\<close> (lines 309-314).\<close>

definition remove :: "string list \<Rightarrow> world \<Rightarrow> (error + string) \<times> world" where
  "remove args w =
     (case args of
        [nm] \<Rightarrow>
          (case dict_get (ab w) nm of
             Some rec \<Rightarrow>
               (case remove_record nm (ab w) of
                  Inl e \<Rightarrow> (Inl e, w)
                | Inr (msg, d') \<Rightarrow> (Inr msg, w\<lparr>ab := d'\<rparr>))
           | None \<Rightarrow> (Inr (''No '' @ nm @ '' in contacts''), w))
      | _ \<Rightarrow> (Inl TypeError, w))"

text \<open>\<open>search\<close> (lines 316-326), the handler.\<close>

definition search_cmd :: "string list \<Rightarrow> world \<Rightarrow> (error + string) \<times> world" where
  "search_cmd args w =
     (if length args = 1 \<and> 3 \<le> length (hd args) then
        (case search (hd args) (ab w) of
           [] \<Rightarrow> (Inr ''No result found by your search'', w)
         | r # rs \<Rightarrow> (Inr (join [CHR 0x0A] (map str_Record (r # rs))), w))
      else (Inr ''Invalid search, try 3 symbols or more after search command'', w))"

text \<open>The table \<open>commands\<close> (lines 329-346) and the functions it names.\<close>

datatype command =
    Hello | Add | Change | Find | Show_all | Help | Close | Set_birthday
  | Days_to_birthday | Search | Remove | No_command

definition commands :: "(string \<times> command) list" where
  "commands =
     [(''hello'', Hello), (''hi'', Hello), (''add'', Add), (''+'', Add),
      (''change'', Change), (''find'', Find), (''show_all'', Show_all),
      (''show'', Show_all), (''help'', Help), (''bye'', Close), (''close'', Close),
      (''exit'', Close), (''birthday'', Set_birthday), (''days_to_bd'', Days_to_birthday),
      (''search'', Search), (''del'', Remove)]"

text \<open>
  \<open>command(*data)\<close>: every function of the table is decorated with \<open>input_error\<close>
  except \<open>add\<close> and \<open>help\<close>.
\<close>

definition call :: "command \<Rightarrow> string list \<Rightarrow> world \<Rightarrow> (error + string) \<times> world" where
  "call c args w =
     (case c of
        Hello \<Rightarrow> wrapper (hello args) w
      | Add \<Rightarrow> add_cmd args w
      | Change \<Rightarrow> wrapper (change_cmd args) w
      | Find \<Rightarrow> wrapper (find_cmd args) w
      | Show_all \<Rightarrow> wrapper (show_all_cmd args) w
      | Help \<Rightarrow> help_cmd args w
      | Close \<Rightarrow> wrapper (close args) w
      | Set_birthday \<Rightarrow> wrapper (set_birthday_cmd args) w
      | Days_to_birthday \<Rightarrow> wrapper (days_to_birthday_cmd args) w
      | Search \<Rightarrow> wrapper (search_cmd args) w
      | Remove \<Rightarrow> wrapper (remove args) w
      | No_command \<Rightarrow> wrapper (no_command args) w)"

text \<open>
  \<open>parser\<close> (lines 348-358), decorated: it returns the pair, or the text the wrapper
  returns for the \<open>IndexError\<close> of \<open>words[0]\<close> on a line without a word.
\<close>

datatype parsed = Pair command "string list" | Text string

definition parser :: "string \<Rightarrow> parsed" where
  "parser text =
     (case split (lower text) of
        [] \<Rightarrow> Text (input_error IndexError)
      | w0 # ws \<Rightarrow>
          (case map_of commands w0 of
             Some c \<Rightarrow> Pair c ws
           | None \<Rightarrow> Pair No_command []))"

text \<open>
  \<open>command, data = parser(user_input)\<close>: a text is unpacked into its characters, which
  raises \<open>ValueError\<close> unless there are two of them; with two, \<open>command\<close> is a text and
  calling it raises \<open>TypeError\<close>.
\<close>

definition unpack :: "parsed \<Rightarrow> error + (command \<times> string list)" where
  "unpack p =
     (case p of
        Pair c args \<Rightarrow> Inr (c, args)
      | Text s \<Rightarrow> if length s = 2 then Inl TypeError else Inl (ValueError []))"

section \<open>The specification's own notions\<close>

text \<open>
  The specification's pattern \<open>dd.mm.yyyy\<close>, in its words: a 2-digit day, a 2-digit
  month and a 4-digit year, all numeric, separated by dots, with no extra characters;
  the three numbers must be a calendar date. The result is that date.
\<close>

definition strict_ddmmyyyy :: "string \<Rightarrow> date option" where
  "strict_ddmmyyyy s =
     (if length s = 10 \<and> s ! 2 = CHR ''.'' \<and> s ! 5 = CHR ''.''
         \<and> list_all is_decimal (take 2 s) \<and> list_all is_decimal (take 2 (drop 3 s))
         \<and> list_all is_decimal (drop 6 s)
      then (case datetime_date (digits_value (drop 6 s)) (digits_value (take 2 (drop 3 s)))
                   (digits_value (take 2 s)) of
              Inl e \<Rightarrow> None
            | Inr d \<Rightarrow> Some d)
      else None)"


text \<open>
  The specification's pages, in its words: successive chunks of exactly \<open>n\<close> records,
  in order, with a shorter final chunk when the records do not fill it.
\<close>

fun chunks_of :: "nat \<Rightarrow> 'a list \<Rightarrow> 'a list list" where
  "chunks_of 0 xs = []"
| "chunks_of (Suc k) [] = []"
| "chunks_of (Suc k) (x # xs) = (x # take k xs) # chunks_of (Suc k) (drop k xs)"

text \<open>
  The generator of \<open>iterator(n)\<close> over the records \<open>xs\<close>, suspended at the \<open>yield\<close> of
  line 151 with \<open>current_index = i\<close>.
\<close>

definition paging :: "nat \<Rightarrow> Record list \<Rightarrow> nat \<Rightarrow> generator" where
  "paging n xs i =
     \<lparr>page_size = Some (int n), records = xs, total_records = Some (length xs),
      current_index = Some (int i), suspended = After_yield_page\<rparr>"

section \<open>The driver\<close>

text \<open>
  A handler reads standard input only in the paging loop, so a call never leaves more
  lines waiting than it found; the loop of \<open>main\<close> terminates on that ground.
\<close>

lemma page_loop_rest: "page_loop d g ls = (e, out, rest) \<Longrightarrow> length rest \<le> length ls"
proof (induction ls arbitrary: g e out rest)
  case Nil
  then show ?case by (auto split: prod.splits event.splits)
next
  case (Cons l ls)
  obtain ev g' where step: "next_chunk d g = (ev, g')" by (cases "next_chunk d g")
  show ?case
  proof (cases ev)
    case (Yield chunk)
    obtain e' out' rest' where rec: "page_loop d g' ls = (e', out', rest')"
      by (cases "page_loop d g' ls")
    from Cons.IH [OF rec] have "length rest' \<le> length ls" .
    with Cons.prems step Yield rec show ?thesis
      by (auto simp: Let_def split: if_splits)
  next
    case StopIteration
    with Cons.prems step show ?thesis by auto
  next
    case (Raise err)
    with Cons.prems step show ?thesis by auto
  qed
qed

lemma show_all_cmd_stdin: "length (stdin (snd (show_all_cmd args w))) \<le> length (stdin w)"
proof (cases args)
  case Nil
  then show ?thesis
    by (auto simp: show_all_cmd_def show_all_def print_def
        split: prod.splits sum.splits event.splits)
next
  case (Cons a as)
  then show ?thesis
    by (auto simp: show_all_cmd_def Let_def dest: page_loop_rest
        split: prod.splits sum.splits option.splits)
qed

lemma add_body_stdin: "stdin (snd (add_body nm ph bd w)) = stdin w"
  by (simp add: add_body_def Let_def split: option.split sum.split prod.split)

lemma add_stdin: "stdin (snd (add nm ph bd w)) = stdin w"
proof -
  obtain r w' where eq: "add_body nm ph bd w = (r, w')" by (cases "add_body nm ph bd w")
  with add_body_stdin [of nm ph bd w] have "stdin w' = stdin w" by simp
  with eq show ?thesis by (simp add: add_def split: sum.split error.split)
qed

lemma add_cmd_stdin: "stdin (snd (add_cmd args w)) = stdin w"
  by (simp add: add_cmd_def add_stdin split: list.split)

lemma wrapper_stdin_eq: "stdin (snd (wrapper f w)) = stdin (snd (f w))"
  by (simp add: wrapper_def split: prod.split sum.split)

lemma hello_stdin: "stdin (snd (hello args w)) = stdin w"
  by (simp add: hello_def split: list.split)

lemma close_stdin: "stdin (snd (close args w)) = stdin w"
  by (simp add: close_def split: list.split)

lemma help_cmd_stdin: "stdin (snd (help_cmd args w)) = stdin w"
  by (simp add: help_cmd_def split: list.split)

lemma no_command_stdin: "stdin (snd (no_command args w)) = stdin w"
  by (simp add: no_command_def)

lemma find_cmd_stdin: "stdin (snd (find_cmd args w)) = stdin w"
  by (simp add: find_cmd_def split: list.split)

lemma change_cmd_stdin: "stdin (snd (change_cmd args w)) = stdin w"
  by (simp add: change_cmd_def Let_def split: list.split option.split prod.split)

lemma set_birthday_cmd_stdin: "stdin (snd (set_birthday_cmd args w)) = stdin w"
  by (simp add: set_birthday_cmd_def split: list.split option.split sum.split prod.split)

lemma days_to_birthday_cmd_stdin: "stdin (snd (days_to_birthday_cmd args w)) = stdin w"
  by (simp add: days_to_birthday_cmd_def split: list.split option.split)

lemma search_cmd_stdin: "stdin (snd (search_cmd args w)) = stdin w"
  by (simp add: search_cmd_def split: list.split)

lemma remove_stdin: "stdin (snd (remove args w)) = stdin w"
  by (simp add: remove_def split: list.split option.split sum.split prod.split)

lemma call_stdin: "length (stdin (snd (call c args w))) \<le> length (stdin w)"
  by (cases c)
     (simp_all add: call_def wrapper_stdin_eq add_cmd_stdin hello_stdin close_stdin
        help_cmd_stdin no_command_stdin find_cmd_stdin change_cmd_stdin
        set_birthday_cmd_stdin days_to_birthday_cmd_stdin search_cmd_stdin remove_stdin
        show_all_cmd_stdin)

text \<open>
  One pass through the body of the \<open>while True\<close> loop of \<open>main\<close> (lines 371-380):
  the body ends and the loop goes on, or it reaches the \<open>break\<close>, or a statement
  raises.
\<close>

datatype iteration = Continue world | Break world | Raised error world

definition loop_body :: "world \<Rightarrow> iteration" where
  "loop_body w =
     (case input ''>>>'' w of
        (Inl e, w1) \<Rightarrow> Raised e w1
      | (Inr user_input, w1) \<Rightarrow>
          (case unpack (parser user_input) of
             Inl e \<Rightarrow> Raised e w1
           | Inr (command, data) \<Rightarrow>
               if command = Close
               then Break (w1\<lparr>disk := save_csv ''ab.csv'' (ab w1)
                                         (save ''ab.bin'' (ab w1) (disk w1))\<rparr>)
               else (case call command data w1 of
                       (Inl e, w2) \<Rightarrow> Raised e w2
                     | (Inr result, w2) \<Rightarrow> Continue (print result w2))))"

lemma loop_body_decreases:
  assumes "loop_body w = Continue w'"
  shows "length (stdin w') < length (stdin w)"
proof -
  obtain r1 w1 where a: "input ''>>>'' w = (r1, w1)" by (cases "input ''>>>'' w")
  have less: "length (stdin w1) < length (stdin w)" if "r1 = Inr l" for l
    using a that by (auto simp: input_def Let_def split: list.splits)
  show ?thesis
  proof (cases r1)
    case (Inl e)
    with assms a show ?thesis by (simp add: loop_body_def)
  next
    case (Inr user_input)
    show ?thesis
    proof (cases "unpack (parser user_input)")
      case (Inl e)
      with assms a Inr show ?thesis by (simp add: loop_body_def)
    next
      case unp: (Inr cd)
      obtain command data where cd: "cd = (command, data)" by (cases cd)
      obtain r2 w2 where c: "call command data w1 = (r2, w2)"
        by (cases "call command data w1")
      have le: "length (stdin w2) \<le> length (stdin w1)"
        using call_stdin [of command data w1] c by simp
      show ?thesis
      proof (cases "command = Close")
        case True
        with assms a Inr unp cd show ?thesis by (simp add: loop_body_def)
      next
        case False
        show ?thesis
        proof (cases r2)
          case (Inl e)
          with assms a Inr unp cd c False show ?thesis by (simp add: loop_body_def)
        next
          case res: (Inr result)
          with assms a Inr unp cd c False have "w' = print result w2"
            by (simp add: loop_body_def)
          with le less [OF Inr] show ?thesis by (simp add: print_def)
        qed
      qed
    qed
  qed
qed

text \<open>
  The loop. It ends with \<open>None\<close> at the \<open>break\<close>, and with the error when a
  statement of the body raises: the loop stands inside the \<open>try\<close> of line 363, whose
  handler is after the loop, so the error leaves the loop.
\<close>

function main_loop :: "world \<Rightarrow> error option \<times> world" where
  "main_loop w =
     (case loop_body w of
        Continue w' \<Rightarrow> main_loop w'
      | Break w' \<Rightarrow> (None, w')
      | Raised e w' \<Rightarrow> (Some e, w'))"
  by pat_completeness auto
termination
  by (relation "measure (\<lambda>w. length (stdin w))") (simp_all add: loop_body_decreases)


section \<open>Sample data\<close>

text \<open>Records, a mapping and a world on which the theorems below are evaluated.\<close>

definition john_record :: Record where
  "john_record =
     \<lparr>name = ''john'', phones = [\<lparr>ident = 0, pvalue = Some ''+380991234567''\<rparr>],
      birthday = None\<rparr>"

definition ann_record :: Record where
  "ann_record =
     \<lparr>name = ''ann'',
      phones = [\<lparr>ident = 1, pvalue = Some ''+380501234512''\<rparr>,
                \<lparr>ident = 2, pvalue = Some ''+380671234500''\<rparr>],
      birthday = Some \<lparr>year = 1990, month = 4, day = 12\<rparr>\<rparr>"

definition bob_record :: Record where
  "bob_record =
     \<lparr>name = ''bob380'', phones = [\<lparr>ident = 3, pvalue = Some ''+380631234599''\<rparr>],
      birthday = None\<rparr>"

definition sample_book :: book where
  "sample_book = [(''john'', john_record), (''ann'', ann_record), (''bob380'', bob_record)]"

definition five_book :: book where
  "five_book =
     [(''a'', \<lparr>name = ''a'', phones = [], birthday = None\<rparr>),
      (''b'', \<lparr>name = ''b'', phones = [], birthday = None\<rparr>),
      (''c'', \<lparr>name = ''c'', phones = [], birthday = None\<rparr>),
      (''d'', \<lparr>name = ''d'', phones = [], birthday = None\<rparr>),
      (''e'', \<lparr>name = ''e'', phones = [], birthday = None\<rparr>)]"

text \<open>
  A world at the start of \<open>main\<close>: an empty \<open>ab\<close>, the given lines on standard input, and
  a file \<open>ab.bin\<close> that holds the sample mapping.
\<close>

definition sample_world :: "string list \<Rightarrow> world" where
  "sample_world lines =
     \<lparr>ab = [], stdin = lines, stdout = [],
      disk = [''ab.bin'' \<mapsto> Pickled sample_book], fresh = 4,
      today = \<lparr>year = 2026, month = 11, day = 3\<rparr>\<rparr>"

section \<open>The claims\<close>

subsection \<open>C1: save and load\<close>

text \<open>
  C1. For every mapping, every path and every state of the files, \<open>load(path)\<close> after
  \<open>save(path)\<close> succeeds and gives back the mapping that was saved: the same names in
  the same order, and under each name a record with the same phones and the same
  birthday.
\<close>

theorem save_then_load:
  "load path (save path d fs) = Inr d
   \<and> (\<exists>d'. load path (save path d fs) = Inr d'
          \<and> dict_keys d' = dict_keys d
          \<and> (\<forall>nm. map_option (\<lambda>r. (map str_phone (phones r), birthday r)) (dict_get d' nm)
                  = map_option (\<lambda>r. (map str_phone (phones r), birthday r)) (dict_get d nm)))"
  by (simp add: load_def save_def)

text \<open>
  In the driver: the pass of the loop that reads an exit command leaves a world whose
  file \<open>ab.bin\<close> loads back as the mapping of that moment.
\<close>

lemma exit_then_load:
  assumes "loop_body w = Break w'"
  shows "load ''ab.bin'' (disk w') = Inr (ab w')"
proof -
  obtain r1 w1 where a: "input ''>>>'' w = (r1, w1)" by (cases "input ''>>>'' w")
  show ?thesis
  proof (cases r1)
    case (Inl e)
    with assms a show ?thesis by (simp add: loop_body_def)
  next
    case (Inr user_input)
    show ?thesis
    proof (cases "unpack (parser user_input)")
      case (Inl e)
      with assms a Inr show ?thesis by (simp add: loop_body_def)
    next
      case unp: (Inr cd)
      obtain command data where cd: "cd = (command, data)" by (cases cd)
      show ?thesis
      proof (cases "command = Close")
        case True
        with assms a Inr unp cd
        have "w' = w1\<lparr>disk := save_csv ''ab.csv'' (ab w1) (save ''ab.bin'' (ab w1) (disk w1))\<rparr>"
          by (simp add: loop_body_def)
        then show ?thesis by (simp add: load_def save_def save_csv_def)
      next
        case False
        with assms a Inr unp cd show ?thesis
          by (simp add: loop_body_def split: prod.splits sum.splits)
      qed
    qed
  qed
qed

subsection \<open>C2: adding a phone twice\<close>

text \<open>
  The same \<open>Phone\<close> object added twice is stored once: membership finds the object
  itself.
\<close>

lemma add_phone_same_object:
  "phones (snd (add_phone p (snd (add_phone p r)))) = phones (snd (add_phone p r))"
  by (simp add: add_phone_def phone_in_def)

text \<open>
  Two different \<open>Phone\<close> objects that are not in the list are both appended, whatever
  their texts.
\<close>

lemma add_phone_distinct_objects:
  assumes "ident p \<noteq> ident q" and "\<not> phone_in p (phones r)" and "\<not> phone_in q (phones r)"
  shows "phones (snd (add_phone q (snd (add_phone p r)))) = phones r @ [p, q]"
  using assms by (auto simp: add_phone_def phone_in_def)

text \<open>
  C2 at the failing input: a record without phones, and two \<open>Phone\<close> objects with the
  same text \<open>+380991234567\<close>. Both are appended, so the text occurs twice in
  \<open>phones\<close>, where C2 has it once.
\<close>

theorem add_phone_same_value_twice:
  "phones (snd (add_phone \<lparr>ident = 2, pvalue = Some ''+380991234567''\<rparr>
             (snd (add_phone \<lparr>ident = 1, pvalue = Some ''+380991234567''\<rparr>
                \<lparr>name = ''john'', phones = [], birthday = None\<rparr>))))
     = [\<lparr>ident = 1, pvalue = Some ''+380991234567''\<rparr>,
        \<lparr>ident = 2, pvalue = Some ''+380991234567''\<rparr>]
   \<and> length (filter (\<lambda>p. str_phone p = ''+380991234567'')
        (phones (snd (add_phone \<lparr>ident = 2, pvalue = Some ''+380991234567''\<rparr>
           (snd (add_phone \<lparr>ident = 1, pvalue = Some ''+380991234567''\<rparr>
              \<lparr>name = ''john'', phones = [], birthday = None\<rparr>)))))) = 2"
  by (simp add: add_phone_def phone_in_def str_phone_def str_opt_def)

subsection \<open>C3: the iterator\<close>

text \<open>
  C3 at the failing input: the iterator with no page size, over any mapping, yields one
  chunk with all the records, and the next \<open>next\<close> raises \<open>UnboundLocalError\<close>, where
  C3 has the iterator exhausted without a failure.
\<close>

theorem iterator_None_resumed_raises:
  "fst (next_chunk d (iterator None)) = Yield (dict_values d)
   \<and> fst (next_chunk d' (snd (next_chunk d (iterator None)))) = Raise UnboundLocalError"
  by (simp add: next_chunk_def iterator_def while_test_def)

text \<open>
  The paged part of C3 holds. With a positive page size \<open>n\<close>, a loop over the iterator
  receives the pages of the records and then ends without an error: every page but the
  last has exactly \<open>n\<close> records, the last has between one and \<open>n\<close>, and together they are
  the records in mapping order.
\<close>

lemma chunks_of_Nil: "chunks_of n [] = []"
  by (cases n) simp_all

lemma chunks_of_step:
  "0 < n \<Longrightarrow> xs \<noteq> [] \<Longrightarrow> chunks_of n xs = take n xs # chunks_of n (drop n xs)"
  by (cases n; cases xs) simp_all

lemma concat_chunks_of: "0 < n \<Longrightarrow> concat (chunks_of n xs) = xs"
proof (induction n xs rule: chunks_of.induct)
  case (3 k x xs)
  then show ?case by simp
qed simp_all

lemma chunks_of_lengths:
  "c \<in> set (chunks_of n xs) \<Longrightarrow> 0 < length c \<and> length c \<le> n"
  by (induction n xs rule: chunks_of.induct) auto

lemma chunks_of_full:
  "c \<in> set (butlast (chunks_of n xs)) \<Longrightarrow> length c = n"
proof (induction n xs rule: chunks_of.induct)
  case (3 k x xs)
  show ?case
  proof (cases "chunks_of (Suc k) (drop k xs) = []")
    case True
    with 3 show ?thesis by simp
  next
    case False
    then have "drop k xs \<noteq> []" by (cases "drop k xs") auto
    then have "k < length xs" by simp
    with 3 False show ?thesis by auto
  qed
qed simp_all

lemma py_slice_nat:
  "a \<le> length xs \<Longrightarrow> py_slice xs (int a) (int a + int n) = take n (drop a xs)"
  by (auto simp: py_slice_def slice_bound_def Let_def min_def nat_add_distrib)

lemma first_page:
  "next_chunk d (iterator (Some (int n))) =
     (if dict_values d = [] then
        (StopIteration, (paging n (dict_values d) 0)\<lparr>suspended := Finished\<rparr>)
      else (Yield (take n (dict_values d)), paging n (dict_values d) 0))"
  using py_slice_nat [of 0 "dict_values d" n]
  by (simp add: next_chunk_def iterator_def while_test_def paging_def)

lemma next_page:
  "next_chunk d (paging n xs i) =
     (if i + n < length xs then (Yield (take n (drop (i + n) xs)), paging n xs (i + n))
      else (StopIteration, (paging n xs (i + n))\<lparr>suspended := Finished\<rparr>))"
  using py_slice_nat [of "i + n" xs n]
  by (simp add: next_chunk_def while_test_def paging_def)

lemma drain_paging:
  "0 < n \<Longrightarrow> length xs < i + n + fuel
   \<Longrightarrow> drain fuel d (paging n xs i) = (chunks_of n (drop (i + n) xs), None)"
proof (induction fuel arbitrary: i)
  case 0
  then show ?case by (simp add: chunks_of_Nil)
next
  case (Suc fuel)
  show ?case
  proof (cases "i + n < length xs")
    case True
    then have ne: "drop (i + n) xs \<noteq> []" by simp
    from Suc.prems True have "length xs < (i + n) + n + fuel" by simp
    from Suc.IH [OF Suc.prems(1) this]
    have "drain fuel d (paging n xs (i + n)) = (chunks_of n (drop (i + n + n) xs), None)" .
    with True Suc.prems(1) ne show ?thesis
      by (simp add: next_page chunks_of_step [OF Suc.prems(1) ne] add.commute add.left_commute)
  next
    case False
    then show ?thesis by (simp add: next_page chunks_of_Nil)
  qed
qed

lemma iterator_pages:
  assumes "0 < n" and "length (dict_values d) < fuel"
  shows "drain fuel d (iterator (Some (int n))) = (chunks_of n (dict_values d), None)"
proof (cases fuel)
  case 0
  with assms show ?thesis by simp
next
  case (Suc k)
  show ?thesis
  proof (cases "dict_values d = []")
    case True
    with Suc show ?thesis by (simp add: first_page chunks_of_Nil)
  next
    case False
    from assms Suc have "length (dict_values d) < 0 + n + k" by simp
    from drain_paging [OF assms(1) this]
    have "drain k d (paging n (dict_values d) 0) = (chunks_of n (drop n (dict_values d)), None)"
      by simp
    with False Suc show ?thesis
      by (simp add: first_page chunks_of_step [OF assms(1) False])
  qed
qed

text \<open>
  The paged iterator at the sample of the specification: page size 2 over five records
  gives chunks of sizes 2, 2 and 1, in mapping order, and then ends.
\<close>

lemma iterator_2_over_5:
  "map length (fst (drain 10 five_book (iterator (Some 2)))) = [2, 2, 1]
   \<and> concat (fst (drain 10 five_book (iterator (Some 2)))) = dict_values five_book
   \<and> snd (drain 10 five_book (iterator (Some 2))) = None"
proof (intro conjI)
  show "map length (fst (drain 10 five_book (iterator (Some 2)))) = [2, 2, 1]"
    by code_simp
  show "concat (fst (drain 10 five_book (iterator (Some 2)))) = dict_values five_book"
    by code_simp
  show "snd (drain 10 five_book (iterator (Some 2))) = None"
    by code_simp
qed

subsection \<open>C4: the birthday validator\<close>

text \<open>
  C4 fails on the code at every input: \<open>Birthday.is_valid_date\<close> raises
  \<open>AttributeError\<close> whatever the text, the leap day \<open>29.02.2024\<close> included, since
  the class \<open>datetime\<close> has no attribute \<open>datetime\<close>.
\<close>

theorem is_valid_date_raises: "is_valid_date b = Inl AttributeError"
  by (simp add: is_valid_date_def getattr_datetime_def)

text \<open>
  So no \<open>Birthday\<close> object can be built, and \<open>add\<close> with a birthday raises for a new
  name with a valid phone.
\<close>

lemma Birthday_raises: "Birthday v = Inl AttributeError"
  by (simp add: Birthday_def is_valid_date_def getattr_datetime_def)

lemma add_with_birthday_raises:
  assumes "dict_get (ab w) nm = None" and "is_valid_phone ph" and "bd \<noteq> []"
  shows "fst (add nm ph (Some bd) w) = Inl AttributeError"
  using assms
  by (simp add: add_def add_body_def Phone_def Birthday_raises Let_def)

subsection \<open>C5: the CSV export\<close>

text \<open>
  C5 at the failing input. For every mapping \<open>save_csv\<close> writes one row, the keys of the
  mapping; for the sample mapping, whose records have phones and one a birthday, the
  file is the row of the three names, and no field of it contains the phone of
  \<open>john\<close>, where C5 has the phones and the birthday in the file.
\<close>

theorem save_csv_writes_names_only:
  "save_csv path d fs path = Some (Csv [dict_keys d])
   \<and> save_csv ''ab.csv'' sample_book fs ''ab.csv'' = Some (Csv [[''john'', ''ann'', ''bob380'']])
   \<and> \<not> list_ex (\<lambda>field. contains field ''+380991234567'') [''john'', ''ann'', ''bob380'']"
proof (intro conjI)
  show "save_csv path d fs path = Some (Csv [dict_keys d])"
    by (simp add: save_csv_def)
  show "save_csv ''ab.csv'' sample_book fs ''ab.csv''
          = Some (Csv [[''john'', ''ann'', ''bob380'']])"
    by (simp add: save_csv_def sample_book_def dict_keys_def)
  show "\<not> list_ex (\<lambda>field. contains field ''+380991234567'') [''john'', ''ann'', ''bob380'']"
    by simp
qed

subsection \<open>C6: a failure inside the loop\<close>


lemma main_loop_Continue: "loop_body w = Continue w' \<Longrightarrow> main_loop w = main_loop w'"
  by (subst main_loop.simps) simp

lemma main_loop_Break: "loop_body w = Break w' \<Longrightarrow> main_loop w = (None, w')"
  by (subst main_loop.simps) simp





subsection \<open>C7: the phone validator\<close>

text \<open>
  C7, as the code has it. For every text, \<open>Phone.is_valid_phone\<close> returns true exactly
  when the text is empty, or starts with \<open>+380\<close>, has length 13 and every character after
  the prefix is a digit in the sense of \<open>str.isdigit\<close>: a decimal digit, or another digit
  character such as the superscripts two, three and one.
\<close>

theorem is_valid_phone_iff:
  "is_valid_phone (Some text) \<longleftrightarrow>
     text = [] \<or>
     (startswith text ''+380'' \<and> length text = 13 \<and> list_all isdigit_char (drop 4 text))"
  by (auto simp: is_valid_phone_def isdigit_def)

text \<open>
  C7 at three inputs: a valid number, a text with a letter in the last place, and the
  empty text.
\<close>

theorem is_valid_phone_iff_witness:
  "is_valid_phone (Some ''+380991234567'') \<and> \<not> is_valid_phone (Some ''+38099123456x'')
   \<and> is_valid_phone (Some [])"
  using is_valid_phone_iff [of "''+380991234567''"] is_valid_phone_iff [of "''+38099123456x''"]
    is_valid_phone_iff [of "[]"]
  by (simp add: isdigit_char_def is_decimal_def)

text \<open>
  C7 as stated, with decimal digits after the prefix, fails: the text \<open>+380\<close> followed by
  nine superscript twos (U+00B2) is accepted, and its characters after the prefix are not
  decimal digits.
\<close>

theorem is_valid_phone_superscript_counterexample:
  "is_valid_phone (Some [CHR ''+'', CHR ''3'', CHR ''8'', CHR ''0'', CHR 0xB2, CHR 0xB2, CHR 0xB2,
       CHR 0xB2, CHR 0xB2, CHR 0xB2, CHR 0xB2, CHR 0xB2, CHR 0xB2])
   \<and> \<not> ([CHR ''+'', CHR ''3'', CHR ''8'', CHR ''0'', CHR 0xB2, CHR 0xB2, CHR 0xB2,
            CHR 0xB2, CHR 0xB2, CHR 0xB2, CHR 0xB2, CHR 0xB2, CHR 0xB2] = []
        \<or> (startswith [CHR ''+'', CHR ''3'', CHR ''8'', CHR ''0'', CHR 0xB2, CHR 0xB2, CHR 0xB2,
               CHR 0xB2, CHR 0xB2, CHR 0xB2, CHR 0xB2, CHR 0xB2, CHR 0xB2] ''+380''
           \<and> length [CHR ''+'', CHR ''3'', CHR ''8'', CHR ''0'', CHR 0xB2, CHR 0xB2, CHR 0xB2,
               CHR 0xB2, CHR 0xB2, CHR 0xB2, CHR 0xB2, CHR 0xB2, CHR 0xB2] = 13
           \<and> list_all is_decimal
               (drop 4 [CHR ''+'', CHR ''3'', CHR ''8'', CHR ''0'', CHR 0xB2, CHR 0xB2, CHR 0xB2,
                  CHR 0xB2, CHR 0xB2, CHR 0xB2, CHR 0xB2, CHR 0xB2, CHR 0xB2])))"
  by (simp add: is_valid_phone_def isdigit_def isdigit_char_def is_decimal_def)

subsection \<open>C8: search\<close>





text \<open>
  The whole result: the records in mapping order, a record that matches on its name
  once, any other record once for each of its phones that matches.
\<close>

lemma search_phones_replicate:
  "search_phones q r ps
     = replicate (length (filter (\<lambda>p. contains (lower (str_phone p)) q) ps)) r"
  by (induction ps) simp_all

lemma search_records_concat:
  "search_records q rs =
     concat (map (\<lambda>r. if contains (lower (name r)) q then [r]
                        else replicate
                          (length (filter (\<lambda>p. contains (lower (str_phone p)) q) (phones r))) r)
               rs)"
  by (induction rs) (simp_all add: search_phones_replicate)



text \<open>
  A record that matches through its phones only is returned once for each matching
  phone: on the sample mapping, \<open>ann\<close> has two phones that contain \<open>380\<close>.
\<close>

lemma search_repeats_per_phone:
  "search ''380'' sample_book = [john_record, ann_record, ann_record, bob_record]"
  by code_simp

subsection \<open>C9: setting the birthday of a record\<close>

lemma char_of_code_point: "of_char c = (n::nat) \<Longrightarrow> c = char_of n"
  by auto

lemma decimal_cases:
  assumes "is_decimal c"
  shows "c = CHR ''0'' \<or> c = CHR ''1'' \<or> c = CHR ''2'' \<or> c = CHR ''3'' \<or> c = CHR ''4''
       \<or> c = CHR ''5'' \<or> c = CHR ''6'' \<or> c = CHR ''7'' \<or> c = CHR ''8'' \<or> c = CHR ''9''"
proof -
  have codes: "char_of (48::nat) = CHR ''0''" "char_of (49::nat) = CHR ''1''"
    "char_of (50::nat) = CHR ''2''" "char_of (51::nat) = CHR ''3''"
    "char_of (52::nat) = CHR ''4''" "char_of (53::nat) = CHR ''5''"
    "char_of (54::nat) = CHR ''6''" "char_of (55::nat) = CHR ''7''"
    "char_of (56::nat) = CHR ''8''" "char_of (57::nat) = CHR ''9''"
    by code_simp+
  from assms have "48 \<le> (of_char c :: nat)" and "(of_char c :: nat) \<le> 57"
    by (simp_all add: is_decimal_def)
  then have "(of_char c :: nat) = 48 \<or> (of_char c :: nat) = 49 \<or> (of_char c :: nat) = 50
      \<or> (of_char c :: nat) = 51 \<or> (of_char c :: nat) = 52 \<or> (of_char c :: nat) = 53
      \<or> (of_char c :: nat) = 54 \<or> (of_char c :: nat) = 55 \<or> (of_char c :: nat) = 56
      \<or> (of_char c :: nat) = 57"
    by arith
  then show ?thesis
    using codes by (auto dest!: char_of_code_point)
qed

text \<open>
  A day of two decimal digits between 01 and 31, followed by a dot, is matched by one of
  the two-character alternatives of the day; the one-character alternative is tried too
  when the first digit is not zero, and fails at the dot.
\<close>

lemma day_matches:
  assumes "is_decimal d1" and "is_decimal d2"
    and "1 \<le> digits_value [d1, d2]" and "digits_value [d1, d2] \<le> 31"
  shows "regex_match (d1 # d2 # CHR ''.'' # r) = after_day [d1, d2] (CHR ''.'' # r)"
  using decimal_cases [OF assms(1)] decimal_cases [OF assms(2)] assms(3,4)
  by (elim disjE)
     (simp_all add: regex_match_def directive_d_def after_day_def literal_dot_def
        is_decimal_def is_nonzero_digit_def digits_value_def digit_value_def)

lemma month_matches:
  assumes "is_decimal m1" and "is_decimal m2"
    and "1 \<le> digits_value [m1, m2]" and "digits_value [m1, m2] \<le> 12"
  shows "after_day d (CHR ''.'' # m1 # m2 # CHR ''.'' # r) = after_month d [m1, m2] (CHR ''.'' # r)"
  using decimal_cases [OF assms(1)] decimal_cases [OF assms(2)] assms(3,4)
  by (elim disjE)
     (simp_all add: directive_m_def after_day_def after_month_def literal_dot_def
        is_decimal_def is_nonzero_digit_def digits_value_def digit_value_def)

lemma year_matches:
  assumes "is_decimal y1" "is_decimal y2" "is_decimal y3" "is_decimal y4"
  shows "after_month d m [CHR ''.'', y1, y2, y3, y4] = [(d, m, [y1, y2, y3, y4], [])]"
  using assms by (simp add: after_month_def literal_dot_def directive_Y_def)

lemma int_group_digits: "is_decimal c \<Longrightarrow> int_group (c # cs) = digits_value (c # cs)"
  by (auto simp: int_group_def is_decimal_def)

lemma datetime_date_bounds:
  "datetime_date y m d = Inr x \<Longrightarrow> 1 \<le> m \<and> m \<le> 12 \<and> 1 \<le> d \<and> d \<le> 31"
  by (auto simp: datetime_date_def days_in_month_def split: if_splits)

lemma list_of_length_10:
  "length s = 10 \<Longrightarrow> s = [s ! 0, s ! 1, s ! 2, s ! 3, s ! 4, s ! 5, s ! 6, s ! 7, s ! 8, s ! 9]"
  by (auto simp: eval_nat_numeral length_Suc_conv)

text \<open>Every date written strictly as \<open>dd.mm.yyyy\<close> is parsed, to that date.\<close>

lemma strict_accepted:
  assumes "strict_ddmmyyyy s = Some x"
  shows "strptime s = Inr x"
proof -
  from assms have len: "length s = 10" and dots: "s ! 2 = CHR ''.''" "s ! 5 = CHR ''.''"
    and dig: "list_all is_decimal (take 2 s)" "list_all is_decimal (take 2 (drop 3 s))"
      "list_all is_decimal (drop 6 s)"
    and date: "datetime_date (digits_value (drop 6 s)) (digits_value (take 2 (drop 3 s)))
                 (digits_value (take 2 s)) = Inr x"
    by (auto simp: strict_ddmmyyyy_def split: if_splits sum.splits)
  obtain d1 d2 m1 m2 y1 y2 y3 y4
    where s: "s = [d1, d2, CHR ''.'', m1, m2, CHR ''.'', y1, y2, y3, y4]"
    using list_of_length_10 [OF len] dots by metis
  from dig have d: "is_decimal d1" "is_decimal d2" and m: "is_decimal m1" "is_decimal m2"
    and y: "is_decimal y1" "is_decimal y2" "is_decimal y3" "is_decimal y4"
    by (simp_all add: s)
  from date have date': "datetime_date (digits_value [y1, y2, y3, y4]) (digits_value [m1, m2])
      (digits_value [d1, d2]) = Inr x"
    by (simp add: s)
  note b = datetime_date_bounds [OF date']
  have "regex_match s = [([d1, d2], [m1, m2], [y1, y2, y3, y4], [])]"
    using b by (simp add: s day_matches [OF d] month_matches [OF m] year_matches [OF y])
  then show ?thesis
    using date' d m y by (simp add: strptime_def int_group_digits)
qed

text \<open>\<open>strptime\<close> on a text raises nothing but \<open>ValueError\<close>.\<close>

lemma strptime_error: "strptime s = Inl e \<Longrightarrow> e = ValueError []"
  by (auto simp: strptime_def datetime_date_def split: list.splits prod.splits if_splits)

text \<open>
  C9, as the code has it. For every record and every text, \<open>set_birthday\<close> does not
  raise. Either \<open>strptime\<close> parses the text under \<open>%d.%m.%Y\<close>, and then the parsed date
  is stored and the success text returned; or it does not, and then the record is
  unchanged and the failure text returned. Every date written strictly as
  \<open>dd.mm.yyyy\<close> is parsed and stored; the texts that are parsed also include a day or a
  month of one digit and a day with a blank before its digit.
\<close>

theorem set_birthday_total:
  "((\<exists>d. strptime b = Inr d
         \<and> set_birthday b r = Inr (''Birthday set for '' @ name r, r\<lparr>birthday := Some d\<rparr>))
    \<or> (strptime b = Inl (ValueError [])
         \<and> set_birthday b r
             = Inr (''Invalid birthday format. Please use dd.mm.yyyy format.'', r)))
   \<and> (\<forall>d. strict_ddmmyyyy b = Some d
          \<longrightarrow> set_birthday b r = Inr (''Birthday set for '' @ name r, r\<lparr>birthday := Some d\<rparr>))"
proof -
  have "strptime b = Inl (ValueError []) \<or> (\<exists>d. strptime b = Inr d)"
    using strptime_error [of b] by (cases "strptime b") auto
  then show ?thesis
    by (auto simp: set_birthday_def strict_accepted)
qed

text \<open>
  C9 at two inputs: the leap day \<open>29.02.2024\<close> is stored, and \<open>31.04.2023\<close>, which is
  no date, leaves the record of \<open>ann\<close> with the birthday it had.
\<close>

theorem set_birthday_total_witness:
  "strict_ddmmyyyy ''29.02.2024'' = Some \<lparr>year = 2024, month = 2, day = 29\<rparr>
   \<and> set_birthday ''29.02.2024'' ann_record
       = Inr (''Birthday set for ann'',
              ann_record\<lparr>birthday := Some \<lparr>year = 2024, month = 2, day = 29\<rparr>\<rparr>)
   \<and> set_birthday ''31.04.2023'' ann_record
       = Inr (''Invalid birthday format. Please use dd.mm.yyyy format.'', ann_record)"
proof -
  have h: "strict_ddmmyyyy ''29.02.2024'' = Some \<lparr>year = 2024, month = 2, day = 29\<rparr>"
    by code_simp
  have n: "name ann_record = ''ann''" by (simp add: ann_record_def)
  from set_birthday_total [of "''29.02.2024''" ann_record] h
  have a: "set_birthday ''29.02.2024'' ann_record
       = Inr (''Birthday set for ann'',
              ann_record\<lparr>birthday := Some \<lparr>year = 2024, month = 2, day = 29\<rparr>\<rparr>)"
    by (simp add: n)
  have e: "strptime ''31.04.2023'' = Inl (ValueError [])" by code_simp
  from set_birthday_total [of "''31.04.2023''" ann_record] e
  have b: "set_birthday ''31.04.2023'' ann_record
       = Inr (''Invalid birthday format. Please use dd.mm.yyyy format.'', ann_record)"
    by simp
  from h a b show ?thesis by simp
qed

text \<open>
  C9 as stated fails. The text \<open>1.1.2024\<close> is not a date in the form \<open>dd.mm.yyyy\<close>, and
  \<open>set_birthday\<close> does not leave the record unchanged with the failure text: it stores
  1 January 2024 and returns the success text.
\<close>

theorem set_birthday_lenient_counterexample:
  "strict_ddmmyyyy ''1.1.2024'' = None
   \<and> set_birthday ''1.1.2024'' john_record
       = Inr (''Birthday set for john'',
              john_record\<lparr>birthday := Some \<lparr>year = 2024, month = 1, day = 1\<rparr>\<rparr>)"
proof (intro conjI)
  show "strict_ddmmyyyy ''1.1.2024'' = None" by code_simp
  show "set_birthday ''1.1.2024'' john_record
       = Inr (''Birthday set for john'',
              john_record\<lparr>birthday := Some \<lparr>year = 2024, month = 1, day = 1\<rparr>\<rparr>)"
    by code_simp
qed

subsection \<open>C10: the add handler on an existing name\<close>

text \<open>
  C10. When the mapping has a record under the name, \<open>add\<close> raises \<open>AttributeError\<close>
  whatever the phone and the birthday, and leaves the world as it was: no text is
  returned or printed. Called through the command table with a phone, or with a phone
  and a birthday, the error comes out of the call as it is, since \<open>add\<close> is not
  decorated and handles \<open>ValueError\<close> only.
\<close>

theorem add_existing_raises:
  assumes "dict_get (ab w) nm = Some r"
  shows "add nm ph bd w = (Inl AttributeError, w)
         \<and> call Add [nm, phone_arg] w = (Inl AttributeError, w)
         \<and> call Add [nm, phone_arg, birthday_arg] w = (Inl AttributeError, w)"
proof -
  have "add_body nm v b w = (Inl AttributeError, w)" for v b
    using assms by (simp add: add_body_def getattr_Record_def)
  then have "add nm v b w = (Inl AttributeError, w)" for v b
    by (simp add: add_def)
  then show ?thesis by (simp add: call_def add_cmd_def)
qed

text \<open>C10 on the sample mapping, for \<open>john\<close>.\<close>

theorem add_existing_raises_witness:
  "dict_get (ab ((sample_world [])\<lparr>ab := sample_book\<rparr>)) ''john'' = Some john_record
   \<and> call Add [''john'', ''+380991234567''] ((sample_world [])\<lparr>ab := sample_book\<rparr>)
       = (Inl AttributeError, (sample_world [])\<lparr>ab := sample_book\<rparr>)"
proof -
  have h: "dict_get (ab ((sample_world [])\<lparr>ab := sample_book\<rparr>)) ''john'' = Some john_record"
    by (simp add: sample_book_def dict_get_def)
  from add_existing_raises [OF h] h show ?thesis by simp
qed

end
